theory Spec2Isabelle
  imports Main
begin

section \<open>The dependency graph controller (model-source.ts)\<close>

text \<open>
  A shallow embedding of class \<open>DepGraphModelSource\<close>. The controller works on a graph of
  schema objects that it shares with the graph generator: the same node object is reachable
  from the children of the model root and from the id index, and \<open>node.error = ...\<close> writes
  to that one object. Objects therefore live in a store (\<open>heap\<close>) and are named by
  references; the children of the root and the index hold references.

  Every call that leaves the controller (action dispatcher, model commit, graph filter,
  graph generator, load indicator, layout engine, logger) is appended to a trace, in the
  order in which the source issues it. The trace also records where an operation
  suspends itself: \<open>AwaitAll\<close> for \<open>await Promise.all(...)\<close>, \<open>Await\<close> for the \<open>await\<close> of a
  single promise. Between two suspensions an operation runs without interruption; the
  operations are modelled on their own, with no other operation run at a suspension.
\<close>

subsection \<open>Data model\<close>

type_synonym ref = nat

text \<open>
  A schema object. \<open>etype\<close> is the \<open>type\<close> discriminator (\<open>'node'\<close> for nodes), \<open>hidden\<close>
  and \<open>resolved\<close> are the optional booleans the source reads through \<open>!!\<close> (absent is
  false), \<open>error\<close> is the optional error string. Position, size and alignment are written
  by the layout handler only.
\<close>

record element =
  eid :: string
  etype :: string
  hidden :: bool
  resolved :: bool
  error :: "string option"
  name :: string
  version :: "string option"
  position :: "(int \<times> int) option"
  esize :: "(int \<times> int) option"
  alignment :: "(int \<times> int) option"

text \<open>
  The graph owned by the generator: the store of objects, the children of the root
  (\<open>this.model.children\<close>; after \<open>start()\<close> the model root is the generator's \<open>graph\<close> object
  itself), the index from id to object, and the next unused reference.
\<close>

record graph =
  heap :: "ref \<Rightarrow> element"
  children :: "ref list"
  index :: "string \<Rightarrow> ref option"
  next_ref :: ref

datatype action =
    SelectAction "string list"
  | SelectAllAction bool
  | FitToScreenAction "string list" nat nat bool

datatype event =
    Dispatch action
  | SetModel
  | UpdateModel
  | SubmitModel bool
  | SetFilter string
  | Refresh
  | LoadIndicator bool
  | GenerateNode string "string option"
  | ResolveNode string
  | AwaitAll
  | Await
  | Layout
  | LogError string

record state =
  graph :: graph
  filterText :: string
  trace :: "event list"

text \<open>The result of an asynchronous operation: its promise is fulfilled or rejected.\<close>

datatype outcome = Completed state | Failed string state

datatype 'a settlement = Fulfilled 'a | Rejected string

text \<open>
  A pending promise: when it settles it may change the graph. Sibling promises awaited by
  one \<open>Promise.all\<close> are settled in the order in which they were created.
\<close>

type_synonym 'a promise = "graph \<Rightarrow> 'a settlement \<times> graph"

subsection \<open>Collaborators\<close>

text \<open>
  The graph generator, the graph filter and the layout engine are injected into the
  controller. \<open>resolveNode\<close> either throws synchronously (\<open>Inl\<close> with the error's
  \<open>toString()\<close>) or returns a promise of the newly discovered nodes; \<open>refresh\<close> gets the
  current filter text; \<open>layout\<close> returns a promise; \<open>hasLoadIndicator\<close> tells whether the
  optional \<open>loadIndicator\<close> hook is set.
\<close>

record env =
  generateNode :: "string \<Rightarrow> string option \<Rightarrow> graph \<Rightarrow> ref \<times> graph"
  resolveNode :: "ref \<Rightarrow> graph \<Rightarrow> (string + (ref list) promise) \<times> graph"
  refresh :: "string \<Rightarrow> graph \<Rightarrow> graph"
  layout :: "graph \<Rightarrow> unit settlement \<times> graph"
  hasLoadIndicator :: bool

definition emit :: "event \<Rightarrow> state \<Rightarrow> state" where
  "emit e st = st\<lparr>trace := trace st @ [e]\<rparr>"

definition isNode :: "element \<Rightarrow> bool" where
  "isNode e = (etype e = ''node'')"

text \<open>\<open>index.getById(id)\<close> followed by \<open>isNode(element) && !element.hidden\<close>.\<close>

definition visible :: "graph \<Rightarrow> string \<Rightarrow> bool" where
  "visible g i = (case index g i of None \<Rightarrow> False
                  | Some r \<Rightarrow> isNode (heap g r) \<and> \<not> hidden (heap g r))"

definition updateModel :: "state \<Rightarrow> state" where
  "updateModel st = emit UpdateModel st"

text \<open>\<open>await this.updateModel()\<close>\<close>

definition awaitUpdateModel :: "state \<Rightarrow> state" where
  "awaitUpdateModel st = emit Await (updateModel st)"

definition isSuspension :: "event \<Rightarrow> bool" where
  "isSuspension e = (e = Await \<or> e = AwaitAll)"

subsection \<open>Lifecycle, selection and centering\<close>

definition start :: "state \<Rightarrow> state" where
  "start st = emit SetModel st"

definition select :: "string list \<Rightarrow> state \<Rightarrow> state" where
  "select elementIds st =
     (if length elementIds > 0
      then emit (Dispatch (SelectAction (filter (visible (graph st)) elementIds))) st
      else st)"

definition center :: "string list \<Rightarrow> state \<Rightarrow> state" where
  "center elementIds st =
     (if length elementIds > 0
      then emit (Dispatch (FitToScreenAction (filter (visible (graph st)) elementIds) 20 1 True)) st
      else st)"

text \<open>
  \<open>Promise.all\<close>: every promise settles (its effect on the graph takes place whether or
  not a sibling has rejected); the aggregate is rejected with the first rejection,
  otherwise fulfilled with all results in order.
\<close>

fun awaitAll :: "'a promise list \<Rightarrow> graph \<Rightarrow> ('a list) settlement \<times> graph" where
  "awaitAll [] g = (Fulfilled [], g)"
| "awaitAll (p # ps) g =
     (case p g of (r, g1) \<Rightarrow>
        (case awaitAll ps g1 of (rs, g2) \<Rightarrow>
           ((case r of
               Rejected e \<Rightarrow> Rejected e
             | Fulfilled x \<Rightarrow> (case rs of Rejected e \<Rightarrow> Rejected e
                                | Fulfilled xs \<Rightarrow> Fulfilled (x # xs))), g2)))"

definition loadIndicate :: "env \<Rightarrow> bool \<Rightarrow> state \<Rightarrow> state" where
  "loadIndicate env b st = (if hasLoadIndicator env then emit (LoadIndicator b) st else st)"

definition doRefresh :: "env \<Rightarrow> state \<Rightarrow> state" where
  "doRefresh env st = emit Refresh (st\<lparr>graph := refresh env (filterText st) (graph st)\<rparr>)"

definition setFilter :: "string \<Rightarrow> state \<Rightarrow> state" where
  "setFilter text st = emit (SetFilter text) (st\<lparr>filterText := text\<rparr>)"

text \<open>\<open>this.model.children!.filter(c => isNode(c) && !c.hidden).map(c => c.id)\<close>\<close>

definition visibleNodeIds :: "graph \<Rightarrow> string list" where
  "visibleNodeIds g =
     map (\<lambda>c. eid (heap g c))
       (filter (\<lambda>c. isNode (heap g c) \<and> \<not> hidden (heap g c)) (children g))"

subsection \<open>Filtering and node creation\<close>

definition filter_op :: "env \<Rightarrow> string \<Rightarrow> state \<Rightarrow> state" where
  "filter_op env text st =
     (let st1 = setFilter text st;
          st2 = doRefresh env st1;
          st3 = emit (Dispatch (SelectAllAction False)) st2;
          centerIds = visibleNodeIds (graph st3);
          st4 = awaitUpdateModel st3
      in center centerIds st4)"

definition createNode :: "env \<Rightarrow> string \<Rightarrow> string option \<Rightarrow> state \<Rightarrow> state" where
  "createNode env nm ver st =
     (let isNew = (index (graph st) nm = None);
          (node, g1) = generateNode env nm ver (graph st);
          st1 = emit (GenerateNode nm ver) (st\<lparr>graph := g1\<rparr>)
      in if isNew
         then select [eid (heap (graph st1) node)] (awaitUpdateModel st1)
         else st1)"

subsection \<open>Resolution of selected nodes\<close>

definition setError :: "ref \<Rightarrow> string \<Rightarrow> graph \<Rightarrow> graph" where
  "setError node e g = g\<lparr>heap := (heap g)(node := (heap g node)\<lparr>error := Some e\<rparr>)\<rparr>"

text \<open>
  The \<open>for\<close> loop of \<open>resolveNodes\<close>; the accumulator holds \<open>promises\<close>, \<open>center\<close> and the
  state.
\<close>

fun resolveNodes_loop ::
  "env \<Rightarrow> ref list \<Rightarrow> (ref list) promise list \<times> string list \<times> state
     \<Rightarrow> (ref list) promise list \<times> string list \<times> state" where
  "resolveNodes_loop env [] acc = acc"
| "resolveNodes_loop env (node # nodes) (promises, centerIds, st) =
     (if \<not> hidden (heap (graph st) node)
      then
        (case resolveNode env node (graph st) of
           (Inr p, g1) \<Rightarrow>
             (let st1 = emit (ResolveNode (eid (heap (graph st) node))) (st\<lparr>graph := g1\<rparr>)
              in resolveNodes_loop env nodes
                   (promises @ [p], centerIds @ [eid (heap (graph st1) node)], st1))
         | (Inl e, g1) \<Rightarrow>
             (let st1 = emit (ResolveNode (eid (heap (graph st) node)))
                          (st\<lparr>graph := setError node e g1\<rparr>)
              in resolveNodes_loop env nodes
                   (promises, centerIds @ [eid (heap (graph st1) node)], st1)))
      else resolveNodes_loop env nodes (promises, centerIds, st))"

definition resolveNodes :: "env \<Rightarrow> ref list \<Rightarrow> state \<Rightarrow> outcome" where
  "resolveNodes env nodes st =
     (if list_all (\<lambda>n. hidden (heap (graph st) n) \<or> resolved (heap (graph st) n)) nodes
      then Completed (center (map (\<lambda>n. eid (heap (graph st) n)) nodes) st)
      else
        (case resolveNodes_loop env nodes ([], [], loadIndicate env True st) of
           (promises, centerIds, st1) \<Rightarrow>
             (case awaitAll promises (graph (emit AwaitAll st1)) of
                (Rejected e, g2) \<Rightarrow> Failed e ((emit AwaitAll st1)\<lparr>graph := g2\<rparr>)
              | (Fulfilled rs, g2) \<Rightarrow>
                  (let st2 = doRefresh env ((emit AwaitAll st1)\<lparr>graph := g2\<rparr>);
                       st3 = awaitUpdateModel st2;
                       st4 = loadIndicate env False st3
                   in Completed (center centerIds st4)))))"

subsection \<open>Resolution of the whole graph\<close>

text \<open>The \<open>for\<close> loop of one wave of \<open>resolveGraph\<close>.\<close>

fun resolveGraph_calls ::
  "env \<Rightarrow> ref list \<Rightarrow> (ref list) promise list \<times> state \<Rightarrow> (ref list) promise list \<times> state" where
  "resolveGraph_calls env [] acc = acc"
| "resolveGraph_calls env (node # nodes) (promises, st) =
     (case resolveNode env node (graph st) of
        (Inr p, g1) \<Rightarrow>
          resolveGraph_calls env nodes
            (promises @ [p], emit (ResolveNode (eid (heap (graph st) node))) (st\<lparr>graph := g1\<rparr>))
      | (Inl e, g1) \<Rightarrow>
          resolveGraph_calls env nodes
            (promises, emit (ResolveNode (eid (heap (graph st) node)))
                         (st\<lparr>graph := setError node e g1\<rparr>)))"

text \<open>
  One iteration of the \<open>while\<close> loop: the calls, then \<open>await Promise.all(promises)\<close>; each
  fulfilled promise has pushed its result to \<open>newNodes\<close>.
\<close>

definition resolveGraph_wave :: "env \<Rightarrow> ref list \<Rightarrow> state \<Rightarrow> (ref list) settlement \<times> state" where
  "resolveGraph_wave env nodes st =
     (case resolveGraph_calls env nodes ([], st) of
        (promises, st1) \<Rightarrow>
          (case awaitAll promises (graph (emit AwaitAll st1)) of
             (Rejected e, g2) \<Rightarrow> (Rejected e, (emit AwaitAll st1)\<lparr>graph := g2\<rparr>)
           | (Fulfilled rs, g2) \<Rightarrow> (Fulfilled (concat rs), (emit AwaitAll st1)\<lparr>graph := g2\<rparr>)))"



definition resolveGraph_finish :: "env \<Rightarrow> state \<Rightarrow> state" where
  "resolveGraph_finish env st =
     (let st1 = doRefresh env st;
          centerIds = visibleNodeIds (graph st1);
          st2 = awaitUpdateModel st1;
          st3 = loadIndicate env False st2
      in center centerIds st3)"


subsection \<open>Clearing and layout application\<close>

text \<open>\<open>index.remove(element)\<close> deletes the entry stored under the element's id.\<close>

definition index_remove :: "ref \<Rightarrow> graph \<Rightarrow> graph" where
  "index_remove r g = g\<lparr>index := (index g)(eid (heap g r) := None)\<rparr>"

definition clear :: "state \<Rightarrow> state" where
  "clear st =
     (let g1 = fold index_remove (children (graph st)) (graph st);
          g2 = g1\<lparr>children := []\<rparr>;
          st1 = setFilter [] (st\<lparr>graph := g2\<rparr>)
      in updateModel st1)"

record computedBoundsAction =
  bounds :: "(string \<times> (int \<times> int \<times> int \<times> int)) list"
  alignments :: "((string \<times> (int \<times> int)) list) option"

definition applyBounds :: "ref \<Rightarrow> int \<times> int \<times> int \<times> int \<Rightarrow> graph \<Rightarrow> graph" where
  "applyBounds r b g =
     (case b of (x, y, w, h) \<Rightarrow>
        g\<lparr>heap := (heap g)(r := (heap g r)\<lparr>position := Some (x, y), esize := Some (w, h)\<rparr>)\<rparr>)"

definition applyAlignment :: "ref \<Rightarrow> int \<times> int \<Rightarrow> graph \<Rightarrow> graph" where
  "applyAlignment r a g = g\<lparr>heap := (heap g)(r := (heap g r)\<lparr>alignment := Some a\<rparr>)\<rparr>"

definition applyAllBounds :: "(string \<times> (int \<times> int \<times> int \<times> int)) list \<Rightarrow> graph \<Rightarrow> graph" where
  "applyAllBounds bs g =
     fold (\<lambda>b g'. case index g' (fst b) of None \<Rightarrow> g' | Some r \<Rightarrow> applyBounds r (snd b) g') bs g"

definition applyAllAlignments :: "(string \<times> (int \<times> int)) list \<Rightarrow> graph \<Rightarrow> graph" where
  "applyAllAlignments as g =
     fold (\<lambda>a g'. case index g' (fst a) of None \<Rightarrow> g' | Some r \<Rightarrow> applyAlignment r (snd a) g') as g"

text \<open>The graph handed to the layout engine: bounds applied first, then alignments.\<close>

definition layoutInput :: "computedBoundsAction \<Rightarrow> graph \<Rightarrow> graph" where
  "layoutInput act g =
     (case alignments act of
        None \<Rightarrow> applyAllBounds (bounds act) g
      | Some as \<Rightarrow> applyAllAlignments as (applyAllBounds (bounds act) g))"

text \<open>
  \<open>handleComputedBounds\<close> returns at once; the state given here is the one reached when
  the promise chain \<open>layout(...).then(...).catch(...)\<close> has run. The model commit
  \<open>doSubmitModel(root, true)\<close> is a call that returns normally.
\<close>

definition handleComputedBounds :: "env \<Rightarrow> computedBoundsAction \<Rightarrow> state \<Rightarrow> state" where
  "handleComputedBounds env act st =
     (let g2 = layoutInput act (graph st);
          st1 = emit Layout (st\<lparr>graph := g2\<rparr>)
      in case layout env g2 of
           (Fulfilled u, g3) \<Rightarrow> emit (SubmitModel True) (st1\<lparr>graph := g3\<rparr>)
         | (Rejected e, g3) \<Rightarrow>
             emit (SubmitModel True) (emit (LogError e) (st1\<lparr>graph := g3\<rparr>)))"

subsection \<open>A registry-backed generator, a text filter and a layout engine\<close>

text \<open>
  Modelled from the spec: the graph generator (graph-generator.ts), the graph filter
  (graph-filter.ts) and the layout engine (graph-layout.ts) are not among the sources.
  The generator materialises a node record for a name and version under the id that
  \<open>nodeId\<close> derives from them, returning the existing node when the id is indexed;
  resolving a node
  asynchronously adds its direct dependencies (nodes and edges) to the shared model and
  index, marks the node resolved, yields the newly discovered nodes, and is a no-op on a
  resolved node. The registry says, for each package name, what the lookup does: it
  succeeds with the direct dependencies, throws before a promise exists, or returns a
  promise that rejects. The filter recomputes \<open>hidden\<close> of every child of the root from
  the filter text alone: an element is shown when its id contains the text.
\<close>

datatype lookup =
    Dependencies "(string \<times> string option) list"
  | Throws string
  | Fails string

definition newNode :: "string \<Rightarrow> string \<Rightarrow> string option \<Rightarrow> element" where
  "newNode i nm ver =
     \<lparr>eid = i, etype = ''node'', hidden = False, resolved = False, error = None,
      name = nm, version = ver, position = None, esize = None, alignment = None\<rparr>"

definition newEdge :: "string \<Rightarrow> string \<Rightarrow> element" where
  "newEdge src tgt =
     \<lparr>eid = src @ ''->'' @ tgt, etype = ''edge'', hidden = False, resolved = False,
      error = None, name = [], version = None, position = None, esize = None,
      alignment = None\<rparr>"

definition addElement :: "element \<Rightarrow> graph \<Rightarrow> ref \<times> graph" where
  "addElement e g =
     (next_ref g,
      g\<lparr>heap := (heap g)(next_ref g := e),
        children := children g @ [next_ref g],
        index := (index g)(eid e \<mapsto> next_ref g),
        next_ref := Suc (next_ref g)\<rparr>)"

definition registryGenerateNode ::
  "(string \<Rightarrow> string option \<Rightarrow> string) \<Rightarrow> string \<Rightarrow> string option \<Rightarrow> graph \<Rightarrow> ref \<times> graph" where
  "registryGenerateNode nodeId nm ver g =
     (case index g (nodeId nm ver) of
        Some r \<Rightarrow> (r, g)
      | None \<Rightarrow> addElement (newNode (nodeId nm ver) nm ver) g)"

fun addDependencies ::
  "(string \<Rightarrow> string option \<Rightarrow> string) \<Rightarrow> string \<Rightarrow> (string \<times> string option) list \<Rightarrow> graph
     \<Rightarrow> ref list \<times> graph" where
  "addDependencies nodeId parent [] g = ([], g)"
| "addDependencies nodeId parent (d # ds) g =
     (case registryGenerateNode nodeId (fst d) (snd d) g of (r, g1) \<Rightarrow>
        (case addElement (newEdge parent (eid (heap g1 r))) g1 of (e, g2) \<Rightarrow>
           (case addDependencies nodeId parent ds g2 of (rs, g3) \<Rightarrow>
              (if index g (nodeId (fst d) (snd d)) = None then (r # rs, g3) else (rs, g3)))))"

definition markResolved :: "ref \<Rightarrow> graph \<Rightarrow> graph" where
  "markResolved node g = g\<lparr>heap := (heap g)(node := (heap g node)\<lparr>resolved := True, error := None\<rparr>)\<rparr>"

definition registryResolveNode ::
  "(string \<Rightarrow> string option \<Rightarrow> string) \<Rightarrow> (string \<Rightarrow> lookup) \<Rightarrow> ref \<Rightarrow> graph
     \<Rightarrow> (string + (ref list) promise) \<times> graph" where
  "registryResolveNode nodeId registry node g =
     (if resolved (heap g node) then (Inr (\<lambda>g'. (Fulfilled [], g')), g)
      else
        (case registry (name (heap g node)) of
           Throws e \<Rightarrow> (Inl e, g)
         | Fails e \<Rightarrow> (Inr (\<lambda>g'. (Rejected e, g')), g)
         | Dependencies ds \<Rightarrow>
             (Inr (\<lambda>g'. case addDependencies nodeId (eid (heap g' node)) ds g' of
                          (rs, g1) \<Rightarrow> (Fulfilled rs, markResolved node g1)), g)))"

fun isPrefix :: "string \<Rightarrow> string \<Rightarrow> bool" where
  "isPrefix [] ys = True"
| "isPrefix (x # xs) [] = False"
| "isPrefix (x # xs) (y # ys) = (x = y \<and> isPrefix xs ys)"

fun containsText :: "string \<Rightarrow> string \<Rightarrow> bool" where
  "containsText t [] = (t = [])"
| "containsText t (c # cs) = (isPrefix t (c # cs) \<or> containsText t cs)"

definition refreshElement :: "string \<Rightarrow> ref \<Rightarrow> graph \<Rightarrow> graph" where
  "refreshElement text c g =
     g\<lparr>heap := (heap g)(c := (heap g c)\<lparr>hidden := \<not> containsText text (eid (heap g c))\<rparr>)\<rparr>"

definition textRefresh :: "string \<Rightarrow> graph \<Rightarrow> graph" where
  "textRefresh text g = fold (refreshElement text) (children g) g"

definition registryEnv ::
  "(string \<Rightarrow> string option \<Rightarrow> string) \<Rightarrow> (string \<Rightarrow> lookup) \<Rightarrow> unit settlement \<Rightarrow> env" where
  "registryEnv nodeId registry layoutResult =
     \<lparr>generateNode = registryGenerateNode nodeId,
      resolveNode = registryResolveNode nodeId registry,
      refresh = textRefresh,
      layout = (\<lambda>g. (layoutResult, g)),
      hasLoadIndicator = True\<rparr>"

definition emptyGraph :: graph where
  "emptyGraph = \<lparr>heap = (\<lambda>r. newEdge [] []), children = [], index = Map.empty, next_ref = 0\<rparr>"

definition emptyState :: state where
  "emptyState = \<lparr>graph = emptyGraph, filterText = [], trace = []\<rparr>"

subsection \<open>Example graphs\<close>

definition stateOf :: "outcome \<Rightarrow> state" where
  "stateOf out = (case out of Completed st \<Rightarrow> st | Failed e st \<Rightarrow> st)"

text \<open>
  The id that the generator derives from name and version: \<open>createNode\<close> looks a node up
  with \<open>index.getById(name)\<close>, so the id of the node for \<open>name\<close> is the name itself, whatever
  the version.
\<close>

definition nameId :: "string \<Rightarrow> string option \<Rightarrow> string" where
  "nameId nm ver = nm"

text \<open>
  A chain of packages: each name of the list depends on the next one, the last on
  nothing, and a name outside the list on nothing.
\<close>

fun chainDeps :: "string list \<Rightarrow> string \<Rightarrow> lookup" where
  "chainDeps (a # b # ns) nm = (if nm = a then Dependencies [(b, None)] else chainDeps (b # ns) nm)"
| "chainDeps ns nm = Dependencies []"

text \<open>The package \<open>A\<close> depends on \<open>B\<close>, which depends on \<open>C\<close>, which depends on nothing.\<close>

definition chainRegistry :: "string \<Rightarrow> lookup" where
  "chainRegistry = chainDeps [''A'', ''B'', ''C'']"

definition chainEnv :: env where
  "chainEnv = registryEnv nameId chainRegistry (Fulfilled ())"

text \<open>The model holds the single unresolved node \<open>A\<close>.\<close>

definition chainStart :: state where
  "chainStart = (createNode chainEnv ''A'' None emptyState)\<lparr>trace := []\<rparr>"

text \<open>\<open>A\<close> has been expanded: \<open>A\<close> is resolved, \<open>B\<close> is known and unresolved.\<close>

definition chainExpanded :: state where
  "chainExpanded = (stateOf (resolveNodes chainEnv [0] chainStart))\<lparr>trace := []\<rparr>"

text \<open>The lookup of \<open>A\<close> is rejected asynchronously; \<open>B\<close> has no dependencies.\<close>

definition rejectingRegistry :: "string \<Rightarrow> lookup" where
  "rejectingRegistry nm =
     (if nm = ''A'' then Fails ''Error: registry unreachable'' else Dependencies [])"

definition rejectingEnv :: env where
  "rejectingEnv = registryEnv nameId rejectingRegistry (Fulfilled ())"



text \<open>The model holds the two unresolved nodes \<open>A\<close> (reference 0) and \<open>B\<close> (reference 1).\<close>

definition pairStart :: state where
  "pairStart =
     (createNode chainEnv ''B'' None (createNode chainEnv ''A'' None emptyState))\<lparr>trace := []\<rparr>"

text \<open>
  The expanded chain under the filter text \<open>A\<close>: \<open>A\<close> is resolved and visible, \<open>B\<close> is
  unresolved and hidden.
\<close>

definition filteredA :: state where
  "filteredA = (filter_op chainEnv ''A'' chainExpanded)\<lparr>trace := []\<rparr>"



text \<open>A hidden node, an edge and a visible node.\<close>

definition selectDemo :: state where
  "selectDemo =
     \<lparr>graph =
        snd (addElement (newNode ''nodeA'' ''nodeA'' None)
          (snd (addElement ((newEdge ''nodeA'' ''hiddenNode1'')\<lparr>eid := ''edge1''\<rparr>)
            (snd (addElement ((newNode ''hiddenNode1'' ''hiddenNode1'' None)\<lparr>hidden := True\<rparr>)
               emptyGraph))))),
      filterText = [], trace = []\<rparr>"

text \<open>Every child of the root is indexed under its own id.\<close>

definition childrenIndexed :: "graph \<Rightarrow> bool" where
  "childrenIndexed g = list_all (\<lambda>c. index g (eid (heap g c)) = Some c) (children g)"

text \<open>Every indexed id is the id of a child of the root.\<close>

definition indexCovered :: "graph \<Rightarrow> bool" where
  "indexCovered g = (dom (index g) \<subseteq> (\<lambda>c. eid (heap g c)) ` set (children g))"

text \<open>The same registry with a layout engine that rejects.\<close>

definition failingLayoutEnv :: env where
  "failingLayoutEnv = registryEnv nameId chainRegistry (Rejected ''Error: layout failed'')"

text \<open>Computed bounds for \<open>A\<close> and for an element that is no longer indexed.\<close>

definition boundsDemo :: computedBoundsAction where
  "boundsDemo =
     \<lparr>bounds = [(''A'', (0, 0, 10, 10)), (''gone'', (1, 1, 1, 1))],
      alignments = Some [(''B'', (2, 3))]\<rparr>"






subsection \<open>Breadth-first levels of a registry\<close>




text \<open>
  The names of a list that are not known yet, each once, in the order of their first
  occurrence.
\<close>

fun fresh :: "string list \<Rightarrow> string list \<Rightarrow> string list" where
  "fresh [] known = []"
| "fresh (x # xs) known =
     (if x \<in> set known then fresh xs known else x # fresh xs (known @ [x]))"








section \<open>Properties\<close>

lemmas model_defs =
  emit_def isNode_def visible_def updateModel_def awaitUpdateModel_def select_def center_def
  loadIndicate_def doRefresh_def setFilter_def visibleNodeIds_def createNode_def setError_def
  resolveNodes_def resolveGraph_wave_def resolveGraph_finish_def index_remove_def

lemmas registry_defs =
  newNode_def newEdge_def addElement_def registryGenerateNode_def markResolved_def
  registryResolveNode_def refreshElement_def textRefresh_def registryEnv_def emptyGraph_def
  emptyState_def stateOf_def nameId_def

subsection \<open>Selection and centering\<close>

text \<open>
  C9. For every id list, \<open>select\<close> and \<open>center\<close> leave the model (the children of the root
  and every field of every element) and the index unchanged, and the filter text too: all
  they add is at most one dispatched view-action. (What the dispatcher does with the
  action afterwards is not part of the two operations.)
\<close>

theorem select_center_frame:
  "graph (select ids st) = graph st \<and> filterText (select ids st) = filterText st
   \<and> graph (center ids st) = graph st \<and> filterText (center ids st) = filterText st
   \<and> (\<exists>as. trace (select ids st) = trace st @ map Dispatch as \<and> length as \<le> 1)
   \<and> (\<exists>as. trace (center ids st) = trace st @ map Dispatch as \<and> length as \<le> 1)"
proof -
  have sel: "\<exists>as. trace (select ids st) = trace st @ map Dispatch as \<and> length as \<le> 1"
  proof (cases "ids = []")
    case True
    then have "trace (select ids st) = trace st @ map Dispatch []"
      by (simp add: select_def)
    then show ?thesis by (metis list.size(3) zero_le)
  next
    case False
    then have "trace (select ids st)
        = trace st @ map Dispatch [SelectAction (filter (visible (graph st)) ids)]"
      by (simp add: select_def emit_def)
    then show ?thesis by (metis length_Cons list.size(3) order_refl One_nat_def)
  qed
  have cen: "\<exists>as. trace (center ids st) = trace st @ map Dispatch as \<and> length as \<le> 1"
  proof (cases "ids = []")
    case True
    then have "trace (center ids st) = trace st @ map Dispatch []"
      by (simp add: center_def)
    then show ?thesis by (metis list.size(3) zero_le)
  next
    case False
    then have "trace (center ids st)
        = trace st @ map Dispatch [FitToScreenAction (filter (visible (graph st)) ids) 20 1 True]"
      by (simp add: center_def emit_def)
    then show ?thesis by (metis length_Cons list.size(3) order_refl One_nat_def)
  qed
  have "graph (select ids st) = graph st \<and> filterText (select ids st) = filterText st
        \<and> graph (center ids st) = graph st \<and> filterText (center ids st) = filterText st"
    by (simp add: select_def center_def emit_def)
  with sel cen show ?thesis by simp
qed

text \<open>
  C4, as the code has it. An empty id list dispatches nothing and leaves the state as it
  is. A non-empty id list dispatches exactly one selection, of exactly the requested ids
  that the index maps to a node that is not hidden; the selection is dispatched also when
  no requested id passes.
\<close>

theorem select_dispatch:
  "(ids = [] \<longrightarrow> select ids st = st)
   \<and> (ids \<noteq> [] \<longrightarrow>
        (\<exists>sel. trace (select ids st) = trace st @ [Dispatch (SelectAction sel)]
           \<and> sel = filter (visible (graph st)) ids
           \<and> set sel = {i \<in> set ids. \<exists>r. index (graph st) i = Some r
                          \<and> etype (heap (graph st) r) = ''node''
                          \<and> \<not> hidden (heap (graph st) r)}))"
proof -
  have "set (filter (visible (graph st)) ids)
        = {i \<in> set ids. \<exists>r. index (graph st) i = Some r
              \<and> etype (heap (graph st) r) = ''node'' \<and> \<not> hidden (heap (graph st) r)}"
    by (auto simp: visible_def isNode_def split: option.splits)
  then show ?thesis
    by (simp add: select_def emit_def)
qed

theorem select_dispatch_witness:
  "[''hiddenNode1'', ''edge1'', ''nodeA''] \<noteq> []
   \<and> trace (select [''hiddenNode1'', ''edge1'', ''nodeA''] selectDemo)
       = [Dispatch (SelectAction [''nodeA''])]
   \<and> select [] selectDemo = selectDemo"
proof -
  have v: "filter (visible (graph selectDemo)) [''hiddenNode1'', ''edge1'', ''nodeA'']
           = [''nodeA'']"
    by (simp add: selectDemo_def model_defs registry_defs)
  have t: "trace selectDemo = []"
    by (simp add: selectDemo_def)
  from select_dispatch [of "[''hiddenNode1'', ''edge1'', ''nodeA'']" selectDemo]
    select_dispatch [of "[]" selectDemo] v t
  show ?thesis by simp
qed

text \<open>
  The requested id is not in the index, so the filtered id list is empty; a selection
  view-action is dispatched all the same.
\<close>

theorem select_empty_result_counterexample:
  "filter (visible (graph emptyState)) [''ghost''] = []
   \<and> trace (select [''ghost''] emptyState) = [Dispatch (SelectAction [])]"
  by (simp add: model_defs registry_defs)

subsection \<open>The example graphs, field by field\<close>

lemma chainStart_graph:
  "heap (graph chainStart) 0 = newNode ''A'' ''A'' None"
  "children (graph chainStart) = [0]"
  "index (graph chainStart) = [''A'' \<mapsto> 0]"
  "next_ref (graph chainStart) = Suc 0"
  "filterText chainStart = []"
  "trace chainStart = []"
  by (simp_all add: chainStart_def chainEnv_def model_defs registry_defs)

lemma chainExpanded_graph:
  "heap (graph chainExpanded) 0 = (newNode ''A'' ''A'' None)\<lparr>resolved := True\<rparr>"
  "heap (graph chainExpanded) (Suc 0) = newNode ''B'' ''B'' None"
  "heap (graph chainExpanded) (Suc (Suc 0)) = newEdge ''A'' ''B''"
  "children (graph chainExpanded) = [0, Suc 0, Suc (Suc 0)]"
  "index (graph chainExpanded) = [''A'' \<mapsto> 0, ''B'' \<mapsto> Suc 0, ''A->B'' \<mapsto> Suc (Suc 0)]"
  "filterText chainExpanded = []"
  "trace chainExpanded = []"
  by (simp_all add: chainExpanded_def chainEnv_def chainRegistry_def chainStart_graph
        model_defs registry_defs)

lemma chainExpanded_refresh:
  "heap (textRefresh ''B'' (graph chainExpanded)) 0
     = (newNode ''A'' ''A'' None)\<lparr>resolved := True, hidden := True\<rparr>"
  "heap (textRefresh ''B'' (graph chainExpanded)) (Suc 0) = newNode ''B'' ''B'' None"
  "heap (textRefresh ''B'' (graph chainExpanded)) (Suc (Suc 0)) = newEdge ''A'' ''B''"
  "children (textRefresh ''B'' (graph chainExpanded)) = [0, Suc 0, Suc (Suc 0)]"
  "index (textRefresh ''B'' (graph chainExpanded))
     = [''A'' \<mapsto> 0, ''B'' \<mapsto> Suc 0, ''A->B'' \<mapsto> Suc (Suc 0)]"
  by (simp_all add: textRefresh_def refreshElement_def chainExpanded_graph newNode_def newEdge_def)

lemma filteredA_graph:
  "heap (graph filteredA) 0 = (newNode ''A'' ''A'' None)\<lparr>resolved := True\<rparr>"
  "heap (graph filteredA) (Suc 0) = (newNode ''B'' ''B'' None)\<lparr>hidden := True\<rparr>"
  "heap (graph filteredA) (Suc (Suc 0)) = newEdge ''A'' ''B''"
  "children (graph filteredA) = [0, Suc 0, Suc (Suc 0)]"
  "index (graph filteredA) = [''A'' \<mapsto> 0, ''B'' \<mapsto> Suc 0, ''A->B'' \<mapsto> Suc (Suc 0)]"
  "filterText filteredA = ''A''"
  "trace filteredA = []"
  by (simp_all add: filteredA_def filter_op_def chainEnv_def chainExpanded_graph
        model_defs registry_defs Let_def)



subsection \<open>Resolution of nodes that need none\<close>

text \<open>
  C5, as the code has it. When the node list is not empty and every node in it is already
  hidden or already resolved, \<open>resolveNodes\<close> completes with the state it was given plus a
  single dispatched fit action: no generator call, no load indicator call, no filter
  pass, no model commit, and the graph is untouched. The fit action does not name all
  the given node ids: \<open>center\<close> keeps those that the index maps to a node that is not
  hidden, so the hidden nodes of the list are left out.
\<close>

theorem resolveNodes_short_circuit:
  assumes "nodes \<noteq> []"
    and "\<forall>n\<in>set nodes. hidden (heap (graph st) n) \<or> resolved (heap (graph st) n)"
  shows "resolveNodes env nodes st =
           Completed (st\<lparr>trace := trace st @
             [Dispatch (FitToScreenAction
                (filter (visible (graph st)) (map (\<lambda>n. eid (heap (graph st) n)) nodes))
                20 1 True)]\<rparr>)"
  using assms by (simp add: resolveNodes_def list_all_iff center_def emit_def)

theorem resolveNodes_short_circuit_witness:
  "[0, Suc 0] \<noteq> []
   \<and> resolved (heap (graph filteredA) 0) \<and> hidden (heap (graph filteredA) (Suc 0))
   \<and> resolveNodes chainEnv [0, Suc 0] filteredA
       = Completed (filteredA\<lparr>trace := [Dispatch (FitToScreenAction [''A''] 20 1 True)]\<rparr>)"
proof -
  have h: "\<forall>n\<in>set [0, Suc 0]. hidden (heap (graph filteredA) n) \<or> resolved (heap (graph filteredA) n)"
    by (simp add: filteredA_graph newNode_def)
  have v: "filter (visible (graph filteredA)) (map (\<lambda>n. eid (heap (graph filteredA) n)) [0, Suc 0])
           = [''A'']"
    by (simp add: filteredA_graph visible_def isNode_def newNode_def)
  from resolveNodes_short_circuit [of "[0, Suc 0]" filteredA chainEnv] h v
  show ?thesis by (simp add: filteredA_graph newNode_def)
qed

text \<open>
  The list holds one hidden node: the fit action that is dispatched names no id, not the
  given one.
\<close>

theorem resolveNodes_hidden_counterexample:
  "hidden (heap (graph selectDemo) 0)
   \<and> eid (heap (graph selectDemo) 0) = ''hiddenNode1''
   \<and> resolveNodes chainEnv [0] selectDemo
       = Completed (selectDemo\<lparr>trace := [Dispatch (FitToScreenAction [] 20 1 True)]\<rparr>)"
  by (simp add: selectDemo_def model_defs registry_defs)

subsection \<open>Filtering\<close>

lemma visibleNodeIds_indexed:
  "childrenIndexed g \<Longrightarrow> filter (visible g) (visibleNodeIds g) = visibleNodeIds g"
  by (auto simp: childrenIndexed_def visibleNodeIds_def visible_def list_all_iff filter_id_conv)

text \<open>
  C6. For every filter text, \<open>filter\<close> issues, in this order: the filter text is set, the
  graph filter is re-run over the graph with that text, everything is deselected, the
  model is committed, and the view is centered on the ids of the nodes that are visible
  in the refreshed graph (captured before the commit). \<open>center\<close> dispatches nothing for
  an empty id list and passes the captured ids through the index; where every child of
  the root is indexed under its id, the fit action names exactly the captured ids.
\<close>

theorem filter_sequence:
  "graph (filter_op env text st) = refresh env text (graph st)
   \<and> filterText (filter_op env text st) = text
   \<and> trace (filter_op env text st) =
       trace st @ [SetFilter text, Refresh, Dispatch (SelectAllAction False), UpdateModel, Await]
       @ (if visibleNodeIds (refresh env text (graph st)) = [] then []
          else [Dispatch (FitToScreenAction
                  (filter (visible (refresh env text (graph st)))
                     (visibleNodeIds (refresh env text (graph st)))) 20 1 True)])
   \<and> (childrenIndexed (refresh env text (graph st)) \<longrightarrow>
        filter (visible (refresh env text (graph st))) (visibleNodeIds (refresh env text (graph st)))
          = visibleNodeIds (refresh env text (graph st)))"
  by (simp add: filter_op_def setFilter_def doRefresh_def updateModel_def awaitUpdateModel_def
        center_def emit_def
        visibleNodeIds_indexed Let_def)

theorem filter_sequence_witness:
  "childrenIndexed (refresh chainEnv ''B'' (graph chainExpanded))
   \<and> trace (filter_op chainEnv ''B'' chainExpanded) =
       [SetFilter ''B'', Refresh, Dispatch (SelectAllAction False), UpdateModel, Await,
        Dispatch (FitToScreenAction [''B''] 20 1 True)]"
proof -
  have r: "refresh chainEnv = textRefresh"
    by (simp add: chainEnv_def registryEnv_def)
  have i: "childrenIndexed (textRefresh ''B'' (graph chainExpanded))"
    by (simp add: childrenIndexed_def chainExpanded_refresh newNode_def newEdge_def)
  have v: "visibleNodeIds (textRefresh ''B'' (graph chainExpanded)) = [''B'']"
    by (simp add: visibleNodeIds_def chainExpanded_refresh newNode_def newEdge_def isNode_def)
  from filter_sequence [of chainEnv "''B''" chainExpanded] r i v
  show ?thesis by (simp add: chainExpanded_graph)
qed

subsection \<open>Clearing\<close>

lemma fold_index_remove:
  "heap (fold index_remove cs g) = heap g
   \<and> children (fold index_remove cs g) = children g
   \<and> next_ref (fold index_remove cs g) = next_ref g
   \<and> index (fold index_remove cs g)
       = (\<lambda>i. if i \<in> (\<lambda>c. eid (heap g c)) ` set cs then None else index g i)"
proof (induction cs arbitrary: g)
  case Nil
  show ?case by simp
next
  case (Cons c cs)
  have h: "heap (index_remove c g) = heap g" "children (index_remove c g) = children g"
    "next_ref (index_remove c g) = next_ref g"
    "index (index_remove c g) = (index g)(eid (heap g c) := None)"
    by (simp_all add: index_remove_def)
  show ?case
    using Cons.IH [of "index_remove c g"] by (auto simp: h)
qed

text \<open>
  C7. In a graph whose indexed ids are all ids of children of the root, the state that
  \<open>clear\<close> returns has an empty index, no children and the empty filter text, the
  objects themselves are not touched, and the filter reset and one model commit have been
  issued. Among the calls of \<open>clear\<close> there is no suspension: all its effects take place
  in one uninterrupted run, so that no other operation can see some of them applied and
  others not.
\<close>

theorem clear_empties:
  assumes "indexCovered (graph st)"
  shows "index (graph (clear st)) = Map.empty
         \<and> children (graph (clear st)) = []
         \<and> heap (graph (clear st)) = heap (graph st)
         \<and> filterText (clear st) = []
         \<and> trace (clear st) = trace st @ [SetFilter [], UpdateModel]
         \<and> filter isSuspension (drop (length (trace st)) (trace (clear st))) = []"
proof -
  have "index (fold index_remove (children (graph st)) (graph st)) i = None" for i
  proof (cases "index (graph st) i")
    case None
    then show ?thesis by (simp add: fold_index_remove)
  next
    case (Some r)
    then have "i \<in> dom (index (graph st))" by auto
    with assms have "i \<in> (\<lambda>c. eid (heap (graph st) c)) ` set (children (graph st))"
      unfolding indexCovered_def by blast
    then show ?thesis by (simp add: fold_index_remove)
  qed
  then have "index (fold index_remove (children (graph st)) (graph st)) = Map.empty"
    by (rule ext)
  then show ?thesis
    by (simp add: clear_def setFilter_def updateModel_def emit_def fold_index_remove
          isSuspension_def)
qed

theorem clear_empties_witness:
  "indexCovered (graph chainExpanded)
   \<and> index (graph (clear chainExpanded)) = Map.empty
   \<and> children (graph (clear chainExpanded)) = []
   \<and> filterText (clear chainExpanded) = []
   \<and> trace (clear chainExpanded) = [SetFilter [], UpdateModel]"
proof -
  have c: "indexCovered (graph chainExpanded)"
    by (simp add: indexCovered_def chainExpanded_graph newNode_def newEdge_def)
  from clear_empties [OF c] show ?thesis
    by (simp add: c chainExpanded_graph)
qed

subsection \<open>Layout application\<close>

text \<open>
  C8. Whatever the layout engine's promise does, \<open>handleComputedBounds\<close> issues exactly
  one model commit, as its last call: after a fulfilment directly, after a rejection
  once the error has been logged.
\<close>

theorem handleComputedBounds_commits_once:
  "trace (handleComputedBounds env act st) =
     trace st @ (case fst (layout env (layoutInput act (graph st))) of
                   Fulfilled u \<Rightarrow> [Layout, SubmitModel True]
                 | Rejected e \<Rightarrow> [Layout, LogError e, SubmitModel True])
   \<and> count_list (trace (handleComputedBounds env act st)) (SubmitModel True)
       = Suc (count_list (trace st) (SubmitModel True))
   \<and> last (trace (handleComputedBounds env act st)) = SubmitModel True
   \<and> graph (handleComputedBounds env act st) = snd (layout env (layoutInput act (graph st)))"
  by (cases "layout env (layoutInput act (graph st))";
      cases "fst (layout env (layoutInput act (graph st)))")
     (simp_all add: handleComputedBounds_def emit_def Let_def)

lemma handleComputedBounds_rejected_example:
  "trace (handleComputedBounds failingLayoutEnv boundsDemo chainExpanded)
     = [Layout, LogError ''Error: layout failed'', SubmitModel True]
   \<and> position (heap (graph (handleComputedBounds failingLayoutEnv boundsDemo chainExpanded)) 0)
       = Some (0, 0)
   \<and> alignment (heap (graph (handleComputedBounds failingLayoutEnv boundsDemo chainExpanded)) (Suc 0))
       = Some (2, 3)"
  by (simp add: handleComputedBounds_def failingLayoutEnv_def boundsDemo_def layoutInput_def
        applyAllBounds_def applyAllAlignments_def applyBounds_def applyAlignment_def
        registryEnv_def emit_def chainExpanded_graph)

subsection \<open>Node creation\<close>



subsection \<open>Resolution with a failing fetch\<close>

lemma pairStart_graph:
  "heap (graph pairStart) 0 = newNode ''A'' ''A'' None"
  "heap (graph pairStart) (Suc 0) = newNode ''B'' ''B'' None"
  "children (graph pairStart) = [0, Suc 0]"
  "index (graph pairStart) = [''A'' \<mapsto> 0, ''B'' \<mapsto> Suc 0]"
  "next_ref (graph pairStart) = Suc (Suc 0)"
  "filterText pairStart = []"
  "trace pairStart = []"
  by (simp_all add: pairStart_def chainEnv_def model_defs registry_defs)

text \<open>
  C1, on the code. The batch holds \<open>A\<close>, whose fetch is rejected asynchronously, and \<open>B\<close>,
  whose fetch succeeds. \<open>resolveNodes\<close> is rejected with the error of \<open>A\<close>: after the
  aggregate wait there is no filter pass, no model commit, no second load indicator call
  and no centering, and the \<open>error\<close> field of \<open>A\<close> stays empty, although the generator has
  resolved \<open>B\<close>.
\<close>

theorem resolveNodes_rejection_aborts:
  "\<exists>s. resolveNodes rejectingEnv [0, 1] pairStart = Failed ''Error: registry unreachable'' s
       \<and> trace s = [LoadIndicator True, ResolveNode ''A'', ResolveNode ''B'', AwaitAll]
       \<and> error (heap (graph s) 0) = None
       \<and> resolved (heap (graph s) 1)"
  by (simp add: rejectingEnv_def rejectingRegistry_def pairStart_graph model_defs registry_defs)






subsection \<open>Resolution of the whole graph\<close>

text \<open>
  Whatever the generator does, a wave issues one generator call for each node of its
  frontier and then the aggregate wait: the calls of the next wave come after it.
\<close>

lemma resolveGraph_calls_trace:
  "\<exists>ids. length ids = length nodes
     \<and> trace (snd (resolveGraph_calls env nodes (ps, st))) = trace st @ map ResolveNode ids"
proof (induction nodes arbitrary: ps st)
  case Nil
  show ?case by simp
next
  case (Cons n nodes)
  obtain r g1 where r: "resolveNode env n (graph st) = (r, g1)"
    by (cases "resolveNode env n (graph st)") auto
  let ?i = "eid (heap (graph st) n)"
  show ?case
  proof (cases r)
    case (Inl e)
    let ?st1 = "emit (ResolveNode ?i) (st\<lparr>graph := setError n e g1\<rparr>)"
    from Cons.IH [of ps ?st1] obtain ids where
      "length ids = length nodes"
      "trace (snd (resolveGraph_calls env nodes (ps, ?st1))) = trace ?st1 @ map ResolveNode ids"
      by blast
    with r Inl show ?thesis
      by (intro exI [of _ "?i # ids"]) (simp add: emit_def)
  next
    case (Inr p)
    let ?st1 = "emit (ResolveNode ?i) (st\<lparr>graph := g1\<rparr>)"
    from Cons.IH [of "ps @ [p]" ?st1] obtain ids where
      "length ids = length nodes"
      "trace (snd (resolveGraph_calls env nodes (ps @ [p], ?st1))) = trace ?st1 @ map ResolveNode ids"
      by blast
    with r Inr show ?thesis
      by (intro exI [of _ "?i # ids"]) (simp add: emit_def)
  qed
qed

lemma resolveGraph_wave_trace:
  "\<exists>ids. length ids = length nodes
     \<and> trace (snd (resolveGraph_wave env nodes st)) = trace st @ map ResolveNode ids @ [AwaitAll]"
proof -
  from resolveGraph_calls_trace [of nodes env "[]" st] obtain ids where
    ids: "length ids = length nodes"
      "trace (snd (resolveGraph_calls env nodes ([], st))) = trace st @ map ResolveNode ids"
    by blast
  obtain ps st1 where c: "resolveGraph_calls env nodes ([], st) = (ps, st1)"
    by (cases "resolveGraph_calls env nodes ([], st)") auto
  obtain r g2 where a: "awaitAll ps (graph (emit AwaitAll st1)) = (r, g2)"
    by (cases "awaitAll ps (graph (emit AwaitAll st1))") auto
  from ids c a have "trace (snd (resolveGraph_wave env nodes st))
      = trace st @ map ResolveNode ids @ [AwaitAll]"
    by (cases r) (simp_all add: resolveGraph_wave_def emit_def)
  with ids(1) show ?thesis by blast
qed









lemma fresh_disjoint: "set (fresh xs known) \<inter> set known = {}"
proof (induction xs arbitrary: known)
  case Nil
  show ?case by simp
next
  case (Cons x xs)
  from Cons [of known] Cons [of "known @ [x]"] show ?case by auto
qed

lemma fresh_distinct: "distinct (fresh xs known)"
proof (induction xs arbitrary: known)
  case Nil
  show ?case by simp
next
  case (Cons x xs)
  have "x \<notin> set (fresh xs (known @ [x]))"
    using fresh_disjoint [of xs "known @ [x]"] by auto
  with Cons show ?case by simp
qed

lemma fresh_subset: "set (fresh xs known) \<subseteq> set xs"
  by (induction xs arbitrary: known) auto





























end
